theory Spec2Isabelle
  imports Main
begin

text \<open>
  The quiz platform's status and notification logic: the time window of a scheduled
  quiz as the model methods (models/teacherQuiz.js), the controller
  (controllers/teacherController.js) and the front end (pages/TeacherQuizDraft.jsx)
  each compute it, the deduplication and reading of notifications, the dispatch of a
  quiz assignment and the submission of answers. The handlers are functions from the
  document store and the request to a response and the new store; the clock reading
  \<open>now\<close> is an argument.
\<close>

section \<open>JavaScript dates and "HH:MM" strings\<close>

text \<open>
  A valid \<open>Date\<close> is its time value, the milliseconds since the epoch in UTC; an
  Invalid Date (time value NaN) is \<open>None\<close>. The functions that work on the local
  wall clock (\<open>setHours\<close>, \<open>getDate\<close>, \<open>setDate\<close>) take the zone offset \<open>tz\<close>
  (local = UTC + \<open>tz\<close>, in milliseconds) as a parameter; the zone has one fixed
  offset (no daylight saving), and the limit of the time value (8.64e15 ms) is not
  modelled. \<open>now\<close> is always a valid date.
\<close>

type_synonym jsdate = "int option"

definition msPerDay :: int where
  "msPerDay = 86400000"

text \<open>\<open>d.setHours(h, m, s, ms)\<close>: keeps the local calendar day of \<open>d\<close> and replaces
  the time within the day; a NaN argument makes the date invalid.\<close>

definition setHours :: "int \<Rightarrow> jsdate \<Rightarrow> int option \<Rightarrow> int option \<Rightarrow> int \<Rightarrow> int \<Rightarrow> jsdate" where
  "setHours tz d h m s ms =
     (case d of None \<Rightarrow> None
      | Some t \<Rightarrow>
         (case h of None \<Rightarrow> None
          | Some hh \<Rightarrow>
             (case m of None \<Rightarrow> None
              | Some mm \<Rightarrow>
                 Some ((t + tz) - (t + tz) mod msPerDay
                       + hh * 3600000 + mm * 60000 + s * 1000 + ms - tz))))"

text \<open>\<open>d.setDate(d.getDate() + 1)\<close>\<close>

definition addOneDay :: "jsdate \<Rightarrow> jsdate" where
  "addOneDay d = (case d of None \<Rightarrow> None | Some t \<Rightarrow> Some (t + msPerDay))"

text \<open>Comparisons of the valid date \<open>now\<close> with a date; every comparison with an
  Invalid Date is false.\<close>

definition now_lt :: "int \<Rightarrow> jsdate \<Rightarrow> bool" where
  "now_lt now d = (case d of None \<Rightarrow> False | Some t \<Rightarrow> now < t)"

definition now_ge :: "int \<Rightarrow> jsdate \<Rightarrow> bool" where
  "now_ge now d = (case d of None \<Rightarrow> False | Some t \<Rightarrow> now \<ge> t)"

definition now_gt :: "int \<Rightarrow> jsdate \<Rightarrow> bool" where
  "now_gt now d = (case d of None \<Rightarrow> False | Some t \<Rightarrow> now > t)"

text \<open>Comparisons of numbers, \<open>None\<close> being NaN or \<open>undefined\<close>: all false then.\<close>

definition num_lt :: "int option \<Rightarrow> int option \<Rightarrow> bool" where
  "num_lt a b = (case a of None \<Rightarrow> False | Some x \<Rightarrow> (case b of None \<Rightarrow> False | Some y \<Rightarrow> x < y))"

definition num_le :: "int option \<Rightarrow> int option \<Rightarrow> bool" where
  "num_le a b = (case a of None \<Rightarrow> False | Some x \<Rightarrow> (case b of None \<Rightarrow> False | Some y \<Rightarrow> x \<le> y))"

definition num_eq :: "int option \<Rightarrow> int option \<Rightarrow> bool" where
  "num_eq a b = (case a of None \<Rightarrow> False | Some x \<Rightarrow> (case b of None \<Rightarrow> False | Some y \<Rightarrow> x = y))"

text \<open>\<open>s.split(':')\<close>\<close>

fun split :: "char \<Rightarrow> string \<Rightarrow> string list" where
  "split c [] = [[]]"
| "split c (x # xs) =
     (if x = c then [] # split c xs
      else (case split c xs of [] \<Rightarrow> [[x]] | p # ps \<Rightarrow> (x # p) # ps))"

definition digitVal :: "char \<Rightarrow> int option" where
  "digitVal c = map_of (zip ''0123456789'' [0, 1, 2, 3, 4, 5, 6, 7, 8, 9]) c"

text \<open>
  \<open>Number(s)\<close> on the pieces of a time of day. The schema documents the format
  "HH:MM" (24-hour), so the model covers pieces of at most two decimal digits (the
  empty piece is 0, as in JavaScript); every other piece is NaN here.
\<close>

fun Number :: "string \<Rightarrow> int option" where
  "Number [] = Some 0"
| "Number [a] = digitVal a"
| "Number [a, b] =
     (case digitVal a of None \<Rightarrow> None
      | Some x \<Rightarrow> (case digitVal b of None \<Rightarrow> None | Some y \<Rightarrow> Some (10 * x + y)))"
| "Number (a # b # c # cs) = None"

text \<open>\<open>const [hour, minute] = s.split(':').map(Number)\<close>; a missing second piece
  is \<open>undefined\<close>.\<close>

definition hourMinute :: "string \<Rightarrow> int option \<times> int option" where
  "hourMinute s =
     (case map Number (split CHR '':'' s) of
        [] \<Rightarrow> (None, None)
      | [h] \<Rightarrow> (h, None)
      | h # m # _ \<Rightarrow> (h, m))"

text \<open>Truthiness of a string field that may be absent: the empty string is falsy.\<close>

definition truthy :: "string option \<Rightarrow> bool" where
  "truthy s = (case s of None \<Rightarrow> False | Some v \<Rightarrow> v \<noteq> [])"

section \<open>The quiz record (models/teacherQuiz.js)\<close>

record option_js =
  isCorrect :: bool

record question =
  options :: "option_js list"

record quiz =
  teacherId :: string
  title :: string
  maxAttempts :: int
  dueDate :: jsdate
  questions :: "question list"
  isScheduled :: bool
  scheduleDate :: jsdate
  startTime :: "string option"
  endTime :: "string option"
  status :: string

text \<open>\<open>new Date('2099-12-31')\<close>: midnight UTC of that day.\<close>

definition farFuture :: jsdate where
  "farFuture = Some 4102358400000"

text \<open>The content of a string field; only read where the field is truthy.\<close>

definition strOf :: "string option \<Rightarrow> string" where
  "strOf s = (case s of None \<Rightarrow> [] | Some v \<Rightarrow> v)"

text \<open>
  The start of the window, as every site computes it:
  \<open>startDateTime = new Date(scheduleDate); startDateTime.setHours(startHour, startMinute, 0, 0)\<close>.
\<close>

definition startDateTime :: "int \<Rightarrow> jsdate \<Rightarrow> string \<Rightarrow> jsdate" where
  "startDateTime tz sd st =
     (case hourMinute st of (startHour, startMinute) \<Rightarrow>
        setHours tz sd startHour startMinute 0 0)"

text \<open>
  The end of the window from \<open>endTime\<close> on the schedule date, moved to the next day
  when \<open>endHour < startHour || (endHour === startHour && endMinute <= startMinute)\<close>
  (teacherQuiz.js \<open>isCurrentlyActive\<close> and \<open>getTimeStatus\<close>; the \<open>endTime\<close> branch of
  \<open>getTeacherQuizzes\<close>, \<open>getQuizStats\<close>, \<open>getSharedQuizzes\<close> and of the front end).
\<close>

definition endDateTime :: "int \<Rightarrow> jsdate \<Rightarrow> string \<Rightarrow> string \<Rightarrow> jsdate" where
  "endDateTime tz sd st et =
     (case hourMinute st of (startHour, startMinute) \<Rightarrow>
      case hourMinute et of (endHour, endMinute) \<Rightarrow>
        (let e = setHours tz sd endHour endMinute 0 0
         in if num_lt endHour startHour \<or> (num_eq endHour startHour \<and> num_le endMinute startMinute)
            then addOneDay e else e))"

text \<open>\<open>getTeacherActivities\<close> (teacherController.js): the same with
  \<open>endMinute < startMinute\<close>.\<close>

definition endDateTime_activities :: "int \<Rightarrow> jsdate \<Rightarrow> string \<Rightarrow> string \<Rightarrow> jsdate" where
  "endDateTime_activities tz sd st et =
     (case hourMinute st of (startHour, startMinute) \<Rightarrow>
      case hourMinute et of (endHour, endMinute) \<Rightarrow>
        (let e = setHours tz sd endHour endMinute 0 0
         in if num_lt endHour startHour \<or> (num_eq endHour startHour \<and> num_lt endMinute startMinute)
            then addOneDay e else e))"

text \<open>
  The end of the window in \<open>getTeacherQuizzes\<close> and \<open>getQuizStats\<close>
  (teacherController.js): \<open>dueDate\<close> at 23:59:59.999 when there is a \<open>dueDate\<close>, else
  from \<open>endTime\<close>, else the far future.
\<close>

definition endDateTime_controller :: "int \<Rightarrow> quiz \<Rightarrow> jsdate" where
  "endDateTime_controller tz q =
     (if dueDate q \<noteq> None then setHours tz (dueDate q) (Some 23) (Some 59) 59 999
      else if truthy (endTime q)
           then endDateTime tz (scheduleDate q) (strOf (startTime q)) (strOf (endTime q))
      else farFuture)"

text \<open>
  The front end (TeacherQuizDraft.jsx, \<open>filteredQuizzes\<close>): \<open>dueDate\<close> with the hours of
  \<open>endTime\<close> when both are there, \<open>dueDate\<close> at 23:59:59.999 when only \<open>dueDate\<close> is,
  else from \<open>endTime\<close>, else the far future.
\<close>

definition endDateTime_frontend :: "int \<Rightarrow> quiz \<Rightarrow> jsdate" where
  "endDateTime_frontend tz q =
     (if dueDate q \<noteq> None \<and> truthy (endTime q)
      then (case hourMinute (strOf (endTime q)) of (endHour, endMinute) \<Rightarrow>
              setHours tz (dueDate q) endHour endMinute 0 0)
      else if dueDate q \<noteq> None then setHours tz (dueDate q) (Some 23) (Some 59) 59 999
      else if truthy (endTime q)
           then endDateTime tz (scheduleDate q) (strOf (startTime q)) (strOf (endTime q))
      else farFuture)"

section \<open>The status of a scheduled quiz\<close>

text \<open>teacherQuiz.js, the method \<open>isCurrentlyActive\<close>, at the clock reading \<open>now\<close>.
  The source returns early on \<open>!isScheduled || !scheduleDate || !startTime || !endTime\<close>;
  the guard below is its negation.\<close>

definition isCurrentlyActive :: "int \<Rightarrow> quiz \<Rightarrow> int \<Rightarrow> bool" where
  "isCurrentlyActive tz q now =
     (if isScheduled q \<and> scheduleDate q \<noteq> None \<and> truthy (startTime q) \<and> truthy (endTime q)
      then now_ge now (startDateTime tz (scheduleDate q) (strOf (startTime q)))
         \<and> now_lt now (endDateTime tz (scheduleDate q) (strOf (startTime q)) (strOf (endTime q)))
      else False)"

text \<open>teacherQuiz.js, the method \<open>getTimeStatus\<close>.\<close>

definition getTimeStatus :: "int \<Rightarrow> quiz \<Rightarrow> int \<Rightarrow> string" where
  "getTimeStatus tz q now =
     (if isScheduled q \<and> scheduleDate q \<noteq> None \<and> truthy (startTime q) \<and> truthy (endTime q)
      then (let s = startDateTime tz (scheduleDate q) (strOf (startTime q));
                e = endDateTime tz (scheduleDate q) (strOf (startTime q)) (strOf (endTime q))
            in if now_lt now s then ''upcoming''
               else if now_ge now s \<and> now_lt now e then ''active''
               else ''expired'')
      else ''unscheduled'')"

text \<open>\<open>getTeacherActivities\<close>: the status reported for a quiz (\<open>actualStatus\<close>).\<close>

definition getTeacherActivities_status :: "int \<Rightarrow> quiz \<Rightarrow> int \<Rightarrow> string" where
  "getTeacherActivities_status tz q now =
     (if isScheduled q \<and> scheduleDate q \<noteq> None \<and> truthy (startTime q) \<and> truthy (endTime q)
      then (let s = startDateTime tz (scheduleDate q) (strOf (startTime q));
                e = endDateTime_activities tz (scheduleDate q) (strOf (startTime q)) (strOf (endTime q))
            in if now_lt now s then ''scheduled''
               else if now_ge now s \<and> now_lt now e then ''active''
               else ''closed'')
      else status q)"

text \<open>\<open>getTeacherQuizzes\<close>: the status written into the returned object.\<close>

definition getTeacherQuizzes_status :: "int \<Rightarrow> quiz \<Rightarrow> int \<Rightarrow> string" where
  "getTeacherQuizzes_status tz q now =
     (if isScheduled q \<and> scheduleDate q \<noteq> None \<and> truthy (startTime q) \<and> truthy (endTime q)
      then (let s = startDateTime tz (scheduleDate q) (strOf (startTime q));
                e = endDateTime_controller tz q
            in if now_lt now s then ''scheduled''
               else if now_ge now s \<and> now_lt now e then ''active''
               else ''closed'')
      else status q)"

text \<open>
  \<open>getQuizStats\<close>: the three flags of one quiz, all false at first and assigned only
  under the guard.
\<close>

record flags =
  isUpcoming :: bool
  isActive :: bool
  isExpired :: bool

definition getQuizStats_flags :: "int \<Rightarrow> quiz \<Rightarrow> int \<Rightarrow> flags" where
  "getQuizStats_flags tz q now =
     (if isScheduled q \<and> scheduleDate q \<noteq> None \<and> truthy (startTime q) \<and> truthy (endTime q)
      then (let s = startDateTime tz (scheduleDate q) (strOf (startTime q));
                e = endDateTime_controller tz q
            in \<lparr> isUpcoming = now_lt now s,
                 isActive = now_ge now s \<and> now_lt now e,
                 isExpired = now_ge now e \<rparr>)
      else \<lparr> isUpcoming = False, isActive = False, isExpired = False \<rparr>)"

text \<open>\<open>getQuizStats\<close>: the counter that the quiz increments, if any.\<close>

definition getQuizStats_counter :: "int \<Rightarrow> quiz \<Rightarrow> int \<Rightarrow> string option" where
  "getQuizStats_counter tz q now =
     (let f = getQuizStats_flags tz q now
      in if isScheduled q
         then (if isUpcoming f then Some ''scheduled''
               else if isActive f then Some ''active''
               else if isExpired f then Some ''closed''
               else None)
         else (if status q = ''draft'' then Some ''drafts''
               else if status q = ''active'' then Some ''active''
               else if status q = ''scheduled'' then Some ''scheduled''
               else if status q = ''closed'' \<or> status q = ''completed'' then Some ''closed''
               else None))"

text \<open>The front end's flags (TeacherQuizDraft.jsx, \<open>filteredQuizzes\<close>): the guard does
  not ask for \<open>endTime\<close>.\<close>

definition frontend_flags :: "int \<Rightarrow> quiz \<Rightarrow> int \<Rightarrow> flags" where
  "frontend_flags tz q now =
     (if isScheduled q \<and> scheduleDate q \<noteq> None \<and> truthy (startTime q)
      then (let s = startDateTime tz (scheduleDate q) (strOf (startTime q));
                e = endDateTime_frontend tz q
            in \<lparr> isUpcoming = now_lt now s,
                 isActive = now_ge now s \<and> now_lt now e,
                 isExpired = now_ge now e \<rparr>)
      else \<lparr> isUpcoming = False, isActive = False, isExpired = False \<rparr>)"

text \<open>
  \<open>getSharedQuizzes\<close>: \<open>timeStatus\<close> and \<open>isCurrentlyActive\<close> of one quiz of the
  student's feed. \<open>endDateTime\<close> stays \<open>undefined\<close> when there is neither \<open>dueDate\<close>
  nor \<open>endTime\<close>.
\<close>

definition getSharedQuizzes_end :: "int \<Rightarrow> quiz \<Rightarrow> jsdate option" where
  "getSharedQuizzes_end tz q =
     (if dueDate q \<noteq> None then Some (setHours tz (dueDate q) (Some 23) (Some 59) 59 999)
      else if truthy (endTime q)
           then Some (endDateTime tz (scheduleDate q) (strOf (startTime q)) (strOf (endTime q)))
      else None)"

definition getSharedQuizzes_status :: "int \<Rightarrow> quiz \<Rightarrow> int \<Rightarrow> string \<times> bool" where
  "getSharedQuizzes_status tz q now =
     (if scheduleDate q \<noteq> None \<and> truthy (startTime q)
      then (let s = startDateTime tz (scheduleDate q) (strOf (startTime q));
                r1 = (if now_lt now s then (''upcoming'', False) else (''active'', True))
            in (case getSharedQuizzes_end tz q of
                  None \<Rightarrow> r1
                | Some e \<Rightarrow> if now_gt now e then (''expired'', False) else r1))
      else (''active'', True))"

section \<open>Notifications and their deduplication (notification controller)\<close>

text \<open>
  A notification document. The fields that no branch of the code reads (title,
  description, instructor, dueDate, metadata) are left out. \<open>quizId\<close> holds the
  string of the ObjectId.
\<close>

record notification =
  nid :: nat
  recipientId :: string
  recipientRole :: string
  ntype :: string
  quizId :: "string option"
  nstatus :: string
  score :: "string option"
  isRead :: bool
  createdAt :: int

text \<open>The state of the loop of \<open>deduplicateNotifications\<close>: the two arrays and the
  two \<open>Map\<close>s from a key to the \<open>_id\<close> of its first notification.\<close>

record dedup =
  uniqueNotifications :: "notification list"
  duplicateIds :: "nat list"
  seenQuizAssignments :: "string \<rightharpoonup> nat"
  seenQuizSubmissions :: "string \<rightharpoonup> nat"

text \<open>\<open>`${notification.quizId.toString()}_${notification.score || 'no-score'}`\<close>\<close>

definition submissionKey :: "string \<Rightarrow> notification \<Rightarrow> string" where
  "submissionKey quizIdStr n =
     quizIdStr @ ''_'' @ (if truthy (score n) then strOf (score n) else ''no-score'')"

text \<open>One iteration of the \<open>for\<close> loop.\<close>

definition dedup_step :: "dedup \<Rightarrow> notification \<Rightarrow> dedup" where
  "dedup_step d n =
     (case quizId n of
        None \<Rightarrow> d\<lparr> uniqueNotifications := uniqueNotifications d @ [n] \<rparr>
      | Some quizIdStr \<Rightarrow>
          if ntype n = ''quiz_assigned'' \<and> nstatus n \<noteq> ''graded''
          then (if seenQuizAssignments d quizIdStr = None
                then d\<lparr> seenQuizAssignments := (seenQuizAssignments d)(quizIdStr \<mapsto> nid n),
                        uniqueNotifications := uniqueNotifications d @ [n] \<rparr>
                else if \<not> isRead n
                     then d\<lparr> duplicateIds := duplicateIds d @ [nid n] \<rparr>
                     else d)
          else if ntype n = ''quiz_graded'' \<or> (ntype n = ''quiz_assigned'' \<and> nstatus n = ''graded'')
          then (if seenQuizSubmissions d (submissionKey quizIdStr n) = None
                then d\<lparr> seenQuizSubmissions :=
                          (seenQuizSubmissions d)(submissionKey quizIdStr n \<mapsto> nid n),
                        uniqueNotifications := uniqueNotifications d @ [n] \<rparr>
                else if \<not> isRead n
                     then d\<lparr> duplicateIds := duplicateIds d @ [nid n] \<rparr>
                     else d)
          else d\<lparr> uniqueNotifications := uniqueNotifications d @ [n] \<rparr>)"

definition dedup_init :: dedup where
  "dedup_init = \<lparr> uniqueNotifications = [], duplicateIds = [],
                  seenQuizAssignments = Map.empty, seenQuizSubmissions = Map.empty \<rparr>"

text \<open>\<open>deduplicateNotifications\<close> returns \<open>{ uniqueNotifications, duplicateIds }\<close>.\<close>

definition deduplicateNotifications :: "notification list \<Rightarrow> notification list \<times> nat list" where
  "deduplicateNotifications notifications =
     (let d = foldl dedup_step dedup_init notifications
      in (uniqueNotifications d, duplicateIds d))"

section \<open>The document store\<close>

record settings =
  inAppNotifications :: "bool option"
  emailNotifications :: "bool option"

text \<open>A document of the collections User, Student and Teacher, with the fields the
  code reads; a field a schema lacks is absent.\<close>

record person =
  pid :: string
  email :: "string option"
  semester :: "string option"
  year :: "string option"
  notificationSettings :: "settings option"

record quizResult =
  userId :: string
  resultQuizId :: string
  resultScore :: "int option"
  correctAnswers :: int
  totalQuestions :: int
  submittedAt :: int
  abandoned :: bool

text \<open>A message handed to \<open>sendEmail\<close>: the address, the kind of the subject line and
  the quiz title in it.\<close>

record mail =
  mailTo :: string
  mailSubject :: string
  mailTitle :: string

record db =
  users :: "person list"
  students :: "person list"
  teachers :: "person list"
  quizzes :: "string \<rightharpoonup> quiz"
  results :: "quizResult list"
  notifications :: "notification list"
  outbox :: "mail list"

definition findById :: "person list \<Rightarrow> string \<Rightarrow> person option" where
  "findById coll i = find (\<lambda>p. pid p = i) coll"

text \<open>The lookup that the notification handlers and \<open>sendEmailNotification\<close> share:
  User, then Student, then Teacher.\<close>

definition findUser :: "db \<Rightarrow> string \<Rightarrow> person option" where
  "findUser s i =
     (case findById (users s) i of Some u \<Rightarrow> Some u
      | None \<Rightarrow> (case findById (students s) i of Some u \<Rightarrow> Some u
                 | None \<Rightarrow> findById (teachers s) i))"

text \<open>\<open>Notification.create\<close>: the store gives the document a fresh \<open>_id\<close>.\<close>

definition freshId :: "notification list \<Rightarrow> nat" where
  "freshId ns = Suc (foldr (\<lambda>n m. max (nid n) m) ns 0)"

definition createNotification :: "db \<Rightarrow> notification \<Rightarrow> db" where
  "createNotification s n =
     s\<lparr> notifications := notifications s @ [n\<lparr> nid := freshId (notifications s) \<rparr>] \<rparr>"

text \<open>
  \<open>sendEmailNotification(userId, userEmail, subject, html)\<close> (notificationEmail.service.js):
  nothing is sent when the user is in none of the three collections; the check of the
  user's \<open>emailNotifications\<close> setting does not return (its \<open>return false\<close> is commented
  out), so every other call reaches \<open>sendEmail\<close>.
\<close>

definition sendEmailNotification :: "db \<Rightarrow> string \<Rightarrow> string \<Rightarrow> string \<Rightarrow> string \<Rightarrow> db" where
  "sendEmailNotification s uid addr subject ttl =
     (case findUser s uid of
        None \<Rightarrow> s
      | Some u \<Rightarrow> s\<lparr> outbox := outbox s @ [\<lparr> mailTo = addr, mailSubject = subject, mailTitle = ttl \<rparr>] \<rparr>)"

section \<open>Reading notifications\<close>

definition inAppNotificationsEnabled :: "person option \<Rightarrow> bool" where
  \<comment> \<open>\<open>user?.notificationSettings?.inAppNotifications ?? true\<close>\<close>
  "inAppNotificationsEnabled user =
     (case user of None \<Rightarrow> True
      | Some u \<Rightarrow> (case notificationSettings u of None \<Rightarrow> True
                  | Some st \<Rightarrow> (case inAppNotifications st of None \<Rightarrow> True | Some b \<Rightarrow> b)))"

text \<open>\<open>Notification.updateMany({ _id: { $in: duplicateIds } }, { $set: { isRead: true } })\<close>\<close>

definition markRead :: "nat list \<Rightarrow> notification list \<Rightarrow> notification list" where
  "markRead ids ns = map (\<lambda>n. if nid n \<in> set ids then n\<lparr> isRead := True \<rparr> else n) ns"

record notificationsResponse =
  respNotifications :: "notification list"
  respUnreadCount :: nat
  respMessage :: "string option"

text \<open>
  \<open>getNotifications\<close>, for the user \<open>userId\<close> and the query parameter \<open>filter\<close>. The
  documents are sorted by \<open>createdAt\<close>, latest first (the order among equal times is the
  store's; the model keeps the stored order), and at most 50 are read.
\<close>

definition getNotifications :: "db \<Rightarrow> string \<Rightarrow> string \<Rightarrow> notificationsResponse \<times> db" where
  "getNotifications s uid fltr =
     (if \<not> inAppNotificationsEnabled (findUser s uid)
      then (\<lparr> respNotifications = [], respUnreadCount = 0,
              respMessage = Some ''In-app notifications are disabled'' \<rparr>, s)
      else (let found = take 50 (sort_key (\<lambda>n. - createdAt n)
                          (filter (\<lambda>n. recipientId n = uid \<and> (if fltr = ''unread'' then \<not> isRead n else True))
                                  (notifications s)));
                r = deduplicateNotifications found;
                s' = (if length (snd r) > 0
                      then s\<lparr> notifications := markRead (snd r) (notifications s) \<rparr> else s)
            in (\<lparr> respNotifications = fst r,
                   respUnreadCount = length (filter (\<lambda>n. \<not> isRead n) (fst r)),
                   respMessage = None \<rparr>, s')))"

record countResponse =
  respCount :: nat
  respCountMessage :: "string option"

definition getUnreadCount :: "db \<Rightarrow> string \<Rightarrow> countResponse \<times> db" where
  "getUnreadCount s uid =
     (if \<not> inAppNotificationsEnabled (findUser s uid)
      then (\<lparr> respCount = 0, respCountMessage = Some ''In-app notifications are disabled'' \<rparr>, s)
      else (let found = filter (\<lambda>n. recipientId n = uid \<and> \<not> isRead n) (notifications s);
                r = deduplicateNotifications found;
                s' = (if length (snd r) > 0
                      then s\<lparr> notifications := markRead (snd r) (notifications s) \<rparr> else s)
            in (\<lparr> respCount = length (fst r), respCountMessage = None \<rparr>, s')))"

section \<open>Dispatch of a quiz assignment (\<open>createQuizNotification\<close>)\<close>

text \<open>The fields of \<open>quizData\<close> that decide who is notified; the others, and the
  argument \<open>teacherName\<close>, only fill the description text.\<close>

record quizData =
  qdTitle :: string
  qdSemester :: "string option"
  qdAcademicYear :: "int option"

definition yearStrings :: "int \<Rightarrow> string option" where
  "yearStrings y =
     (if y = 1 then Some ''1st year'' else if y = 2 then Some ''2nd year''
      else if y = 3 then Some ''3rd year'' else if y = 4 then Some ''4th year'' else None)"

text \<open>\<open>studentFilter\<close>: a falsy \<open>semester\<close> or \<open>academicYear\<close> (absent, or 0) and a year
  outside the table put no condition.\<close>

definition studentFilter :: "quizData \<Rightarrow> person \<Rightarrow> bool" where
  "studentFilter qd p =
     ((if truthy (qdSemester qd) then semester p = qdSemester qd else True)
      \<and> (case qdAcademicYear qd of None \<Rightarrow> True
         | Some y \<Rightarrow> if y = 0 then True
                     else (case yearStrings y of None \<Rightarrow> True | Some ys \<Rightarrow> year p = Some ys)))"

datatype dispatchResult =
    Created nat
  | Skipped nat
  | NoStudents

definition countAssigned :: "db \<Rightarrow> string \<Rightarrow> nat" where
  \<comment> \<open>\<open>Notification.countDocuments({ quizId, type: 'quiz_assigned' })\<close>\<close>
  "countAssigned s qid =
     length (filter (\<lambda>n. quizId n = Some qid \<and> ntype n = ''quiz_assigned'') (notifications s))"

text \<open>Modelled from the spec: the Notification schema (models/notification.js) is not
  among the sources; \<open>isRead\<close> of a document created without it is taken to be false.\<close>

definition assignmentNotification :: "string \<Rightarrow> int \<Rightarrow> person \<Rightarrow> notification" where
  "assignmentNotification qid now student =
     \<lparr> nid = 0, recipientId = pid student, recipientRole = ''student'',
       ntype = ''quiz_assigned'', quizId = Some qid, nstatus = ''pending'',
       score = None, isRead = False, createdAt = now \<rparr>"

text \<open>The loop that sends the assignment emails, one student after the other.\<close>

fun sendAssignmentEmails :: "db \<Rightarrow> quizData \<Rightarrow> person list \<Rightarrow> db" where
  "sendAssignmentEmails s qd [] = s"
| "sendAssignmentEmails s qd (student # rest) =
     (let emailNotificationsEnabled =
            (case notificationSettings student of None \<Rightarrow> True
             | Some st \<Rightarrow> (case emailNotifications st of None \<Rightarrow> True | Some b \<Rightarrow> b))
      in if emailNotificationsEnabled \<and> truthy (email student)
         then sendAssignmentEmails
                (sendEmailNotification s (pid student) (strOf (email student))
                   ''New Quiz Assigned'' (qdTitle qd)) qd rest
         else sendAssignmentEmails s qd rest)"

definition createQuizNotification :: "db \<Rightarrow> string \<Rightarrow> quizData \<Rightarrow> int \<Rightarrow> dispatchResult \<times> db" where
  "createQuizNotification s qid qd now =
     (let existingNotifications = countAssigned s qid
      in if existingNotifications > 0 then (Skipped existingNotifications, s)
         else (let found = filter (studentFilter qd) (students s)
               in if length found = 0 then (NoStudents, s)
                  else (let s1 = foldl createNotification s (map (assignmentNotification qid now) found);
                            s2 = sendAssignmentEmails s1 qd found
                        in (Created (length found), s2))))"

section \<open>Submitting answers (\<open>submitQuizAnswers\<close>)\<close>

text \<open>A value of the request's \<open>answers\<close> array, or the correct answer of a question.\<close>

datatype jsval = Undefined | Null | Num int

fun findIndex :: "('a \<Rightarrow> bool) \<Rightarrow> 'a list \<Rightarrow> int" where
  "findIndex P [] = - 1"
| "findIndex P (x # xs) =
     (if P x then 0 else (let i = findIndex P xs in if i = - 1 then - 1 else i + 1))"

text \<open>\<open>isCorrect\<close> of the question at \<open>index\<close>: \<open>userAnswer === correctAnswer\<close>.\<close>

definition answerIsCorrect :: "jsval list \<Rightarrow> nat \<Rightarrow> question \<Rightarrow> bool" where
  "answerIsCorrect answers index qn =
     (let userAnswer = (if index < length answers then answers ! index else Undefined);
          correctAnswerIndex = findIndex isCorrect (options qn);
          correctAnswer = (if correctAnswerIndex \<noteq> - 1 then Num correctAnswerIndex else Null)
      in userAnswer = correctAnswer)"

definition countCorrect :: "jsval list \<Rightarrow> question list \<Rightarrow> int" where
  "countCorrect answers qs =
     int (length (filter (\<lambda>iq. answerIsCorrect answers (fst iq) (snd iq)) (enumerate 0 qs)))"

text \<open>
  \<open>Math.round((a / b) * 100)\<close> for counts \<open>a \<ge> 0\<close>, \<open>b \<ge> 0\<close>, in exact arithmetic
  (half rounds up); \<open>None\<close> when \<open>b = 0\<close>, where the source has NaN or Infinity. The
  doubles of the source give the same number wherever \<open>100 * a / b\<close> is not within
  rounding error of a half, as at every input evaluated below.
\<close>

definition roundPercent :: "int \<Rightarrow> int \<Rightarrow> int option" where
  "roundPercent a b = (if b = 0 then None else Some ((200 * a + b) div (2 * b)))"

text \<open>
  The test of step 9:
  \<open>completionPercentage >= majorityThreshold &&
    completionPercentage - Math.round(((completedCount - 1) / totalStudents) * 100) > 0\<close>.
  With no student at all both percentages are Infinity or NaN, their difference is NaN
  and the test is false.
\<close>

definition majorityThreshold :: int where
  "majorityThreshold = 50"

definition majorityTest :: "int \<Rightarrow> int \<Rightarrow> bool" where
  "majorityTest completedCount totalStudents =
     (case roundPercent completedCount totalStudents of
        None \<Rightarrow> False
      | Some completionPercentage \<Rightarrow>
          (case roundPercent (completedCount - 1) totalStudents of
             None \<Rightarrow> False
           | Some previousPercentage \<Rightarrow>
               completionPercentage \<ge> majorityThreshold
               \<and> completionPercentage - previousPercentage > 0))"

definition digitChar :: "nat \<Rightarrow> char" where
  "digitChar n = ''0123456789'' ! n"

function decimal :: "nat \<Rightarrow> string" where
  "decimal n = (if n < 10 then [digitChar n] else decimal (n div 10) @ [digitChar (n mod 10)])"
  by pat_completeness auto
termination
  by (relation "measure id") auto

text \<open>\<open>`${score}/100`\<close>\<close>

definition scoreString :: "int option \<Rightarrow> string" where
  "scoreString sc = (case sc of None \<Rightarrow> ''NaN'' | Some v \<Rightarrow> decimal (nat v)) @ ''/100''"

datatype submitResponse =
    NotFound
  | AlreadySubmitted quizResult
  | AttemptsExhausted int int
  | AttemptRecorded quizResult int
  | NotAvailable string
  | Submitted quizResult int

text \<open>Steps 8 (second part) and 8b: the block that looks the student up and sends the
  submission email; the source has it twice.\<close>

definition sendSubmissionEmail :: "db \<Rightarrow> string \<Rightarrow> quiz \<Rightarrow> db" where
  "sendSubmissionEmail s uid q =
     (case findById (students s) uid of
        None \<Rightarrow> s
      | Some student \<Rightarrow>
          if truthy (email student)
          then sendEmailNotification s uid (strOf (email student)) ''Quiz Submitted'' (title q)
          else s)"

text \<open>Step 8 (first part): the \<open>quiz_graded\<close> notification, unless one of the same
  recipient and quiz was created in the last five seconds.\<close>

definition notifySubmission :: "db \<Rightarrow> string \<Rightarrow> string \<Rightarrow> int option \<Rightarrow> int \<Rightarrow> db" where
  "notifySubmission s uid qid sc now =
     (case find (\<lambda>n. recipientId n = uid \<and> quizId n = Some qid \<and> ntype n = ''quiz_graded''
                     \<and> createdAt n \<ge> now - 5000) (notifications s) of
        Some existingNotification \<Rightarrow> s
      | None \<Rightarrow>
          createNotification s
            \<lparr> nid = 0, recipientId = uid, recipientRole = ''student'', ntype = ''quiz_graded'',
              quizId = Some qid, nstatus = ''graded'', score = Some (scoreString sc),
              isRead = False, createdAt = now \<rparr>)"

text \<open>Step 9: the majority check. \<open>totalStudents\<close> counts every student,
  \<open>completedCount\<close> every result of the quiz.\<close>

definition checkMajority :: "db \<Rightarrow> string \<Rightarrow> quiz \<Rightarrow> int \<Rightarrow> db" where
  "checkMajority s qid q now =
     (let totalStudents = int (length (students s));
          completedCount = int (length (filter (\<lambda>r. resultQuizId r = qid) (results s)))
      in if majorityTest completedCount totalStudents
         then (case findById (teachers s) (teacherId q) of
                 None \<Rightarrow> s
               | Some teacher \<Rightarrow>
                   if truthy (email teacher)
                   then createNotification
                          (sendEmailNotification s (teacherId q) (strOf (email teacher))
                             ''Quiz Status'' (title q))
                          \<lparr> nid = 0, recipientId = teacherId q, recipientRole = ''teacher'',
                            ntype = ''quiz_majority_complete'', quizId = Some qid,
                            nstatus = ''completed'', score = None, isRead = False,
                            createdAt = now \<rparr>
                   else s)
         else s)"

text \<open>
  \<open>submitQuizAnswers\<close> for the quiz \<open>qid\<close>, the authenticated user \<open>uid\<close>, the request
  body (\<open>answers\<close>, an array, and \<open>abandonedQuiz\<close>) and the clock reading \<open>now\<close>, taken
  to be the same through the request. The store's calls are taken to succeed, and
  \<open>timeTaken\<close>, which is only stored and returned, is left out.
\<close>

definition submitQuizAnswers ::
  "int \<Rightarrow> db \<Rightarrow> string \<Rightarrow> string \<Rightarrow> jsval list \<Rightarrow> bool \<Rightarrow> int \<Rightarrow> submitResponse \<times> db" where
  "submitQuizAnswers tz s qid uid answers abandonedQuiz now =
     (case quizzes s qid of
        None \<Rightarrow> (NotFound, s)
      | Some q \<Rightarrow>
         (case find (\<lambda>r. userId r = uid \<and> resultQuizId r = qid \<and> submittedAt r \<ge> now - 5000)
                    (results s) of
            Some recentSubmission \<Rightarrow> (AlreadySubmitted recentSubmission, s)
          | None \<Rightarrow>
             (let existingAttempts =
                    int (length (filter (\<lambda>r. userId r = uid \<and> resultQuizId r = qid) (results s)))
              in if existingAttempts \<ge> maxAttempts q
                 then (AttemptsExhausted existingAttempts (maxAttempts q), s)
                 else if abandonedQuiz
                 then (let quizResult =
                             \<lparr> userId = uid, resultQuizId = qid, resultScore = Some 0,
                               correctAnswers = 0, totalQuestions = int (length (questions q)),
                               submittedAt = now, abandoned = True \<rparr>;
                           s1 = s\<lparr> results := results s @ [quizResult] \<rparr>;
                           s2 = createNotification s1
                                  \<lparr> nid = 0, recipientId = uid, recipientRole = ''student'',
                                    ntype = ''quiz_abandoned'', quizId = Some qid,
                                    nstatus = ''abandoned'', score = Some ''0/100'',
                                    isRead = False, createdAt = now \<rparr>
                       in (AttemptRecorded quizResult (existingAttempts + 1), s2))
                 else if \<not> isCurrentlyActive tz q now
                 then (NotAvailable (getTimeStatus tz q now), s)
                 else (let correct = countCorrect answers (questions q);
                           sc = roundPercent correct (int (length (questions q)));
                           quizResult =
                             \<lparr> userId = uid, resultQuizId = qid, resultScore = sc,
                               correctAnswers = correct, totalQuestions = int (length (questions q)),
                               submittedAt = now, abandoned = False \<rparr>;
                           s1 = s\<lparr> results := results s @ [quizResult] \<rparr>;
                           s2 = notifySubmission s1 uid qid sc now;
                           s3 = sendSubmissionEmail s2 uid q;
                           s4 = sendSubmissionEmail s3 uid q;
                           s5 = checkMajority s4 qid q now
                       in (Submitted quizResult (existingAttempts + 1), s5)))))"

section \<open>Notions used in the statements\<close>

text \<open>Exactly one of the three flags is set.\<close>

definition exactlyOne :: "flags \<Rightarrow> bool" where
  "exactlyOne f = (length (filter (\<lambda>b. b) [isUpcoming f, isActive f, isExpired f]) = 1)"

text \<open>The \<open>quiz_graded\<close> notifications of a student for a quiz.\<close>

definition gradedCount :: "db \<Rightarrow> string \<Rightarrow> string \<Rightarrow> nat" where
  "gradedCount s uid qid =
     length (filter (\<lambda>n. ntype n = ''quiz_graded'' \<and> recipientId n = uid \<and> quizId n = Some qid)
               (notifications s))"

text \<open>The submission emails handed to \<open>sendEmail\<close> so far.\<close>

definition submissionMails :: "db \<Rightarrow> mail list" where
  "submissionMails s = filter (\<lambda>m. mailSubject m = ''Quiz Submitted'') (outbox s)"

text \<open>The majority-completion notifications in the store.\<close>

definition majorityCount :: "db \<Rightarrow> nat" where
  "majorityCount s =
     length (filter (\<lambda>n. ntype n = ''quiz_majority_complete'') (notifications s))"

section \<open>Example data\<close>

text \<open>
  A quiz scheduled on 2025-03-10 (1741564800000 is 2025-03-10T00:00:00Z) from 09:00 to
  17:00, on a server whose zone is UTC (\<open>tz = 0\<close>), and variants of it. Times used
  below: 09:00 is 1741597200000, 12:00 is 1741608000000, 17:00 is 1741626000000, 01:00
  of the next day is 1741654800000.
\<close>

definition quiz_day :: quiz where
  "quiz_day = \<lparr> teacherId = ''t1'', title = ''Algebra'', maxAttempts = 2, dueDate = None,
      questions = [\<lparr> options = [\<lparr> isCorrect = False \<rparr>, \<lparr> isCorrect = True \<rparr>] \<rparr>],
      isScheduled = True, scheduleDate = Some 1741564800000,
      startTime = Some ''09:00'', endTime = Some ''17:00'', status = ''scheduled'' \<rparr>"

definition quiz_night :: quiz where
  "quiz_night = quiz_day\<lparr> startTime := Some ''22:00'', endTime := Some ''02:00'' \<rparr>"

definition quiz_same_time :: quiz where
  "quiz_same_time = quiz_day\<lparr> endTime := Some ''09:00'' \<rparr>"

text \<open>Due on 2025-03-12 (1741737600000); 17:00 of that day is 1741798800000, 18:00 is
  1741802400000 and its last millisecond is 1741823999999.\<close>

definition quiz_due :: quiz where
  "quiz_due = quiz_day\<lparr> dueDate := Some 1741737600000 \<rparr>"

text \<open>Due on 2025-03-08 (1741392000000), two days before the schedule date; noon of
  2025-03-09 is 1741521600000.\<close>

definition quiz_due_before :: quiz where
  "quiz_due_before = quiz_day\<lparr> dueDate := Some 1741392000000 \<rparr>"

definition quiz_no_endTime :: quiz where
  "quiz_no_endTime = quiz_day\<lparr> endTime := None \<rparr>"

definition student :: "string \<Rightarrow> string option \<Rightarrow> person" where
  "student i addr = \<lparr> pid = i, email = addr, semester = Some ''1st semester'',
      year = Some ''1st year'', notificationSettings = None \<rparr>"

definition teacher_t1 :: person where
  "teacher_t1 = \<lparr> pid = ''t1'', email = Some ''t1@school.org'', semester = None, year = None,
      notificationSettings =
        Some \<lparr> inAppNotifications = Some False, emailNotifications = None \<rparr> \<rparr>"

text \<open>Four students, the last without an email address, one teacher and the quiz
  \<open>q1\<close>.\<close>

definition db0 :: db where
  "db0 = \<lparr> users = [],
          students = [student ''s1'' (Some ''s1@school.org''), student ''s2'' (Some ''s2@school.org''),
                      student ''s3'' (Some ''s3@school.org''), student ''s4'' None],
          teachers = [teacher_t1],
          quizzes = [''q1'' \<mapsto> quiz_day],
          results = [], notifications = [], outbox = [] \<rparr>"

text \<open>Three students submit at 12:00, 12:10 and 12:20.\<close>

definition after1 :: db where
  "after1 = snd (submitQuizAnswers 0 db0 ''q1'' ''s1'' [Num 1] False 1741608000000)"

definition after2 :: db where
  "after2 = snd (submitQuizAnswers 0 after1 ''q1'' ''s2'' [Num 1] False 1741608600000)"

definition after3 :: db where
  "after3 = snd (submitQuizAnswers 0 after2 ''q1'' ''s3'' [Num 0] False 1741609200000)"

text \<open>The student \<open>s1\<close> has used both attempts, at 10:00 and at 11:00.\<close>

definition db_two_attempts :: db where
  "db_two_attempts = db0\<lparr> results :=
     [\<lparr> userId = ''s1'', resultQuizId = ''q1'', resultScore = Some 0, correctAnswers = 0,
        totalQuestions = 1, submittedAt = 1741600800000, abandoned = False \<rparr>,
      \<lparr> userId = ''s1'', resultQuizId = ''q1'', resultScore = Some 100, correctAnswers = 1,
        totalQuestions = 1, submittedAt = 1741604400000, abandoned = False \<rparr>] \<rparr>"

definition assigned :: "nat \<Rightarrow> string \<Rightarrow> notification" where
  "assigned i uid = \<lparr> nid = i, recipientId = uid, recipientRole = ''student'',
      ntype = ''quiz_assigned'', quizId = Some ''q1'', nstatus = ''pending'', score = None,
      isRead = False, createdAt = 1741564800000 \<rparr>"

text \<open>The same assignment stored twice, unread, for the teacher \<open>t1\<close> (in-app
  notifications switched off) and for the student \<open>s1\<close>.\<close>

definition db_duplicates :: db where
  "db_duplicates = db0\<lparr> notifications :=
     [assigned 1 ''t1'', assigned 2 ''t1'', assigned 3 ''s1'', assigned 4 ''s1''] \<rparr>"

definition qd0 :: quizData where
  "qd0 = \<lparr> qdTitle = ''Algebra'', qdSemester = Some ''1st semester'', qdAcademicYear = Some 1 \<rparr>"

section \<open>Facts about dates and times of day\<close>

lemma setHours_Some [simp]:
  "setHours tz (Some t) (Some h) (Some m) s ms =
     Some ((t + tz) - (t + tz) mod msPerDay + h * 3600000 + m * 60000 + s * 1000 + ms - tz)"
  by (simp add: setHours_def)

lemma digitVal_range: "digitVal c = Some v \<Longrightarrow> 0 \<le> v \<and> v \<le> 9"
  by (auto simp: digitVal_def split: if_splits)

lemma Number_range: "Number s = Some v \<Longrightarrow> 0 \<le> v \<and> v \<le> 99"
proof (induction s rule: Number.induct)
  case (3 a b)
  then show ?case
    by (auto split: option.splits dest!: digitVal_range)
qed (auto dest: digitVal_range)

lemma hourMinute_range:
  assumes "hourMinute s = (Some h, Some m)"
  shows "0 \<le> h \<and> h \<le> 99 \<and> 0 \<le> m \<and> m \<le> 99"
  using assms
  by (auto simp: hourMinute_def split: list.splits dest: Number_range)

lemma startDateTime_parsed:
  assumes "hourMinute st = (Some sh, Some sm)"
  shows "startDateTime tz (Some sd) st =
           Some ((sd + tz) - (sd + tz) mod msPerDay + sh * 3600000 + sm * 60000 - tz)"
  using assms by (simp add: startDateTime_def)

lemma endDateTime_parsed:
  assumes "hourMinute st = (Some sh, Some sm)" and "hourMinute et = (Some eh, Some em)"
  shows "endDateTime tz (Some sd) st et =
           (if eh < sh \<or> (eh = sh \<and> em \<le> sm)
            then Some ((sd + tz) - (sd + tz) mod msPerDay + eh * 3600000 + em * 60000 - tz + msPerDay)
            else Some ((sd + tz) - (sd + tz) mod msPerDay + eh * 3600000 + em * 60000 - tz))"
  using assms
  by (auto simp: endDateTime_def Let_def num_lt_def num_eq_def num_le_def addOneDay_def)

text \<open>With a start time of day within the day and minutes below 60, the end computed
  from \<open>endTime\<close> lies after the start.\<close>

lemma start_before_end:
  assumes "hourMinute st = (Some sh, Some sm)" and "hourMinute et = (Some eh, Some em)"
    and "sh \<le> 23" and "sm \<le> 59" and "em \<le> 59"
    and "startDateTime tz (Some sd) st = Some s" and "endDateTime tz (Some sd) st et = Some e"
  shows "s < e"
proof -
  have r: "0 \<le> eh" "0 \<le> em" "0 \<le> sm" "0 \<le> sh"
    using hourMinute_range[OF assms(1)] hourMinute_range[OF assms(2)] by auto
  show ?thesis
    using assms(3-7) r
    unfolding startDateTime_parsed[OF assms(1)] endDateTime_parsed[OF assms(1) assms(2)]
    by (auto simp: msPerDay_def split: if_splits)
qed

lemmas time_defs = startDateTime_def endDateTime_def endDateTime_activities_def
  endDateTime_controller_def endDateTime_frontend_def getSharedQuizzes_end_def
  hourMinute_def digitVal_def setHours_def addOneDay_def msPerDay_def farFuture_def
  now_lt_def now_ge_def now_gt_def num_lt_def num_le_def num_eq_def truthy_def strOf_def

section \<open>The end of the window when there is a due date\<close>

text \<open>The front end takes the day of \<open>dueDate\<close> and the time of \<open>endTime\<close>.\<close>

lemma endDateTime_frontend_dueDate_endTime:
  assumes "dueDate q = Some dd" and "truthy (endTime q)"
    and "hourMinute (strOf (endTime q)) = (Some eh, Some em)"
  shows "endDateTime_frontend tz q = setHours tz (Some dd) (Some eh) (Some em) 0 0"
  using assms by (simp add: endDateTime_frontend_def)

text \<open>The controller takes the last millisecond of the day of \<open>dueDate\<close>, whatever
  \<open>endTime\<close> is.\<close>

lemma endDateTime_controller_dueDate:
  assumes "dueDate q = Some dd"
  shows "endDateTime_controller tz q = setHours tz (Some dd) (Some 23) (Some 59) 59 999"
  using assms by (simp add: endDateTime_controller_def)

text \<open>
  Claim C2. In the end-instant computation, for every scheduled quiz with both
  \<open>dueDate\<close> and \<open>endTime\<close>, the end is the day of \<open>dueDate\<close> at the time of
  \<open>endTime\<close>, not the end of that day. The front end computes it so; the controller
  (\<open>getTeacherQuizzes\<close>, \<open>getQuizStats\<close>, \<open>getSharedQuizzes\<close>) does not: for the quiz
  due on 2025-03-12 with \<open>endTime\<close> 17:00 its end is 23:59:59.999 of that day, and at
  18:00 the quiz is still reported active.
\<close>

theorem controller_end_ignores_endTime:
  "dueDate quiz_due = Some 1741737600000 \<and> endTime quiz_due = Some ''17:00''
   \<and> endDateTime_controller 0 quiz_due = Some 1741823999999
   \<and> getSharedQuizzes_end 0 quiz_due = Some (Some 1741823999999)
   \<and> endDateTime_frontend 0 quiz_due = Some 1741798800000
   \<and> getTeacherQuizzes_status 0 quiz_due 1741802400000 = ''active''
   \<and> isActive (getQuizStats_flags 0 quiz_due 1741802400000)
   \<and> isExpired (frontend_flags 0 quiz_due 1741802400000)"
  by (simp add: getTeacherQuizzes_status_def getQuizStats_flags_def frontend_flags_def
        quiz_due_def quiz_day_def time_defs)

section \<open>Upcoming, active, expired\<close>

lemma flags_exactlyOne:
  assumes "s \<le> e"
  shows "exactlyOne \<lparr> isUpcoming = now_lt now (Some s),
                      isActive = now_ge now (Some s) \<and> now_lt now (Some e),
                      isExpired = now_ge now (Some e) \<rparr>"
  using assms by (auto simp: exactlyOne_def now_lt_def now_ge_def)

text \<open>
  Claim C3, as the code has it. For a scheduled quiz whose \<open>startTime\<close> and \<open>endTime\<close>
  are present, whose start and end are valid dates and whose end is not before its
  start, exactly one of \<open>isUpcoming\<close>, \<open>isCurrentlyActive\<close>, \<open>isExpired\<close> of
  \<open>getQuizStats\<close> is true at every \<open>now\<close>, and \<open>getTimeStatus\<close> returns one of
  upcoming, active, expired.
\<close>

theorem getQuizStats_flags_one_status:
  assumes "isScheduled q" and "truthy (startTime q)" and "truthy (endTime q)"
    and "startDateTime tz (scheduleDate q) (strOf (startTime q)) = Some s"
    and "endDateTime_controller tz q = Some e"
    and "s \<le> e"
  shows "exactlyOne (getQuizStats_flags tz q now)
       \<and> getTimeStatus tz q now \<in> {''upcoming'', ''active'', ''expired''}"
proof -
  have sd: "scheduleDate q \<noteq> None"
    using assms(4)
    by (auto simp: startDateTime_def setHours_def split: prod.splits option.splits)
  have "getQuizStats_flags tz q now =
          \<lparr> isUpcoming = now_lt now (Some s),
            isActive = now_ge now (Some s) \<and> now_lt now (Some e),
            isExpired = now_ge now (Some e) \<rparr>"
    using assms(1-5) sd by (simp add: getQuizStats_flags_def Let_def)
  then have one: "exactlyOne (getQuizStats_flags tz q now)"
    using flags_exactlyOne[OF assms(6)] by simp
  have "getTimeStatus tz q now \<in> {''upcoming'', ''active'', ''expired''}"
    using assms(1-3) sd by (simp add: getTimeStatus_def Let_def)
  with one show ?thesis by simp
qed

text \<open>The quiz of 2025-03-10, 09:00 to 17:00, at noon.\<close>

theorem getQuizStats_flags_one_status_witness:
  "isScheduled quiz_day \<and> truthy (startTime quiz_day) \<and> truthy (endTime quiz_day)
   \<and> startDateTime 0 (scheduleDate quiz_day) (strOf (startTime quiz_day)) = Some 1741597200000
   \<and> endDateTime_controller 0 quiz_day = Some 1741626000000
   \<and> (1741597200000 :: int) \<le> 1741626000000
   \<and> exactlyOne (getQuizStats_flags 0 quiz_day 1741608000000)
   \<and> getTimeStatus 0 quiz_day 1741608000000 \<in> {''upcoming'', ''active'', ''expired''}"
proof -
  have h1: "isScheduled quiz_day" by (simp add: quiz_day_def)
  have h2: "truthy (startTime quiz_day)" by (simp add: quiz_day_def truthy_def)
  have h3: "truthy (endTime quiz_day)" by (simp add: quiz_day_def truthy_def)
  have h4: "startDateTime 0 (scheduleDate quiz_day) (strOf (startTime quiz_day)) = Some 1741597200000"
    by (simp add: quiz_day_def time_defs)
  have h5: "endDateTime_controller 0 quiz_day = Some 1741626000000"
    by (simp add: quiz_day_def time_defs)
  have h6: "(1741597200000 :: int) \<le> 1741626000000" by simp
  show ?thesis
    using h1 h2 h3 h4 h5 h6 getQuizStats_flags_one_status[OF h1 h2 h3 h4 h5 h6, of 1741608000000]
    by simp
qed

text \<open>
  The claim fails as stated: with a due date before the schedule date the quiz is at
  once upcoming and expired (at noon of 2025-03-09 here), and a scheduled quiz without
  \<open>endTime\<close> has none of the three flags.
\<close>

theorem getQuizStats_flags_not_exclusive:
  "isScheduled quiz_due_before
   \<and> getQuizStats_flags 0 quiz_due_before 1741521600000
     = \<lparr> isUpcoming = True, isActive = False, isExpired = True \<rparr>
   \<and> isScheduled quiz_no_endTime
   \<and> getQuizStats_flags 0 quiz_no_endTime 1741608000000
     = \<lparr> isUpcoming = False, isActive = False, isExpired = False \<rparr>"
  by (simp add: getQuizStats_flags_def quiz_due_before_def quiz_no_endTime_def quiz_day_def time_defs)

text \<open>The counters of \<open>getQuizStats\<close> in these two cases: the first quiz counts as
  scheduled, the second is counted nowhere.\<close>

lemma getQuizStats_counter_examples:
  "getQuizStats_counter 0 quiz_due_before 1741521600000 = Some ''scheduled''
   \<and> getQuizStats_counter 0 quiz_no_endTime 1741608000000 = None"
  by (simp add: getQuizStats_counter_def getQuizStats_flags_def quiz_due_before_def quiz_no_endTime_def quiz_day_def time_defs)

text \<open>Without a due date, and with times of day in range, the end is after the start,
  so that exactly one flag is set.\<close>

lemma no_dueDate_start_before_end:
  assumes "dueDate q = None" and "truthy (endTime q)"
    and "hourMinute (strOf (startTime q)) = (Some sh, Some sm)"
    and "hourMinute (strOf (endTime q)) = (Some eh, Some em)"
    and "sh \<le> 23" and "sm \<le> 59" and "em \<le> 59"
    and "scheduleDate q = Some sd"
  shows "\<exists>s e. startDateTime tz (scheduleDate q) (strOf (startTime q)) = Some s
             \<and> endDateTime_controller tz q = Some e \<and> s < e"
proof -
  obtain s where s: "startDateTime tz (Some sd) (strOf (startTime q)) = Some s"
    using startDateTime_parsed[OF assms(3)] by blast
  obtain e where e: "endDateTime tz (Some sd) (strOf (startTime q)) (strOf (endTime q)) = Some e"
    using endDateTime_parsed[OF assms(3) assms(4), of tz sd] by (auto split: if_splits)
  have "s < e"
    using start_before_end[OF assms(3) assms(4) assms(5) assms(6) assms(7) s e] .
  then show ?thesis
    using s e assms(1,2,8) by (simp add: endDateTime_controller_def)
qed

section \<open>The instant of the end\<close>

text \<open>At the end instant \<open>getTimeStatus\<close> says expired and \<open>isCurrentlyActive\<close> is
  false; so are the flags of \<open>getQuizStats\<close>.\<close>

lemma getTimeStatus_at_end:
  assumes "isScheduled q" and "scheduleDate q = Some sd"
    and "truthy (startTime q)" and "truthy (endTime q)"
    and "hourMinute (strOf (startTime q)) = (Some sh, Some sm)"
    and "hourMinute (strOf (endTime q)) = (Some eh, Some em)"
    and "sh \<le> 23" and "sm \<le> 59" and "em \<le> 59"
    and "endDateTime tz (scheduleDate q) (strOf (startTime q)) (strOf (endTime q)) = Some e"
  shows "getTimeStatus tz q e = ''expired'' \<and> \<not> isCurrentlyActive tz q e"
proof -
  obtain s where s: "startDateTime tz (Some sd) (strOf (startTime q)) = Some s"
    using startDateTime_parsed[OF assms(5)] by blast
  have "s < e"
    using start_before_end[OF assms(5) assms(6) assms(7) assms(8) assms(9) s] assms(10,2)
    by simp
  then show ?thesis
    using assms(1-4,10) s
    by (simp add: getTimeStatus_def isCurrentlyActive_def now_lt_def now_ge_def)
qed

lemma getQuizStats_flags_at_end:
  assumes "isScheduled q" and "scheduleDate q \<noteq> None"
    and "truthy (startTime q)" and "truthy (endTime q)"
    and "endDateTime_controller tz q = Some e"
  shows "isExpired (getQuizStats_flags tz q e) \<and> \<not> isActive (getQuizStats_flags tz q e)"
  using assms by (simp add: getQuizStats_flags_def Let_def now_lt_def now_ge_def)

text \<open>
  Claim C4. When \<open>now\<close> is the end instant the quiz is expired and not active. For the
  quiz of 2025-03-10, 09:00 to 17:00, without due date, at 17:00: \<open>getTimeStatus\<close> and
  \<open>isCurrentlyActive\<close> have it expired, but \<open>getSharedQuizzes\<close>, which tests
  \<open>now > endDateTime\<close>, still reports it active.
\<close>

theorem getSharedQuizzes_active_at_end:
  "endDateTime 0 (scheduleDate quiz_day) ''09:00'' ''17:00'' = Some 1741626000000
   \<and> getSharedQuizzes_end 0 quiz_day = Some (Some 1741626000000)
   \<and> getSharedQuizzes_status 0 quiz_day 1741626000000 = (''active'', True)
   \<and> getTimeStatus 0 quiz_day 1741626000000 = ''expired''
   \<and> \<not> isCurrentlyActive 0 quiz_day 1741626000000
   \<and> isExpired (getQuizStats_flags 0 quiz_day 1741626000000)"
  by (simp add: getSharedQuizzes_status_def getTimeStatus_def isCurrentlyActive_def
        getQuizStats_flags_def quiz_day_def time_defs)

section \<open>Windows that cross midnight\<close>

text \<open>The rule of \<open>isCurrentlyActive\<close>, \<open>getTimeStatus\<close> and the front end: an end time
  of day at or before the start time of day moves the end to the next day.\<close>

lemma endDateTime_next_day:
  assumes "hourMinute st = (Some sh, Some sm)" and "hourMinute et = (Some eh, Some em)"
    and "eh < sh \<or> (eh = sh \<and> em \<le> sm)"
  shows "endDateTime tz sd st et = addOneDay (setHours tz sd (Some eh) (Some em) 0 0)"
  using assms by (auto simp: endDateTime_def Let_def num_lt_def num_eq_def num_le_def)

text \<open>From 22:00 to 02:00: the end is 02:00 of the next day, and at 01:00 of the next
  day the quiz is active on every path.\<close>

lemma midnight_spanning_example:
  "endDateTime 0 (scheduleDate quiz_night) ''22:00'' ''02:00'' = Some 1741658400000
   \<and> isCurrentlyActive 0 quiz_night 1741654800000
   \<and> getTimeStatus 0 quiz_night 1741654800000 = ''active''
   \<and> getTeacherActivities_status 0 quiz_night 1741654800000 = ''active''
   \<and> isActive (frontend_flags 0 quiz_night 1741654800000)"
  by (simp add: getTeacherActivities_status_def getTimeStatus_def isCurrentlyActive_def
        frontend_flags_def quiz_night_def quiz_day_def time_defs)

text \<open>
  Claim C5. Without a due date, an end time of day at or before the start time of day
  moves the end to the next day. \<open>getTeacherActivities\<close> compares the minutes with
  \<open><\<close>: for a quiz from 09:00 to 09:00 it leaves the end on the schedule date, and at
  noon reports closed a quiz that \<open>isCurrentlyActive\<close> and \<open>getTimeStatus\<close> have
  active until 09:00 of the next day.
\<close>

theorem getTeacherActivities_same_time_not_advanced:
  "endDateTime_activities 0 (scheduleDate quiz_same_time) ''09:00'' ''09:00'' = Some 1741597200000
   \<and> endDateTime 0 (scheduleDate quiz_same_time) ''09:00'' ''09:00'' = Some 1741683600000
   \<and> getTeacherActivities_status 0 quiz_same_time 1741608000000 = ''closed''
   \<and> isCurrentlyActive 0 quiz_same_time 1741608000000
   \<and> getTimeStatus 0 quiz_same_time 1741608000000 = ''active''"
  by (simp add: getTeacherActivities_status_def getTimeStatus_def isCurrentlyActive_def
        quiz_same_time_def quiz_day_def time_defs)

section \<open>Deduplication\<close>

text \<open>An iteration either keeps the notification, and then does the same from a state
  whose \<open>duplicateIds\<close> are emptied, or changes \<open>duplicateIds\<close> at most.\<close>

lemma dedup_step_cases:
  "(uniqueNotifications (dedup_step d x) = uniqueNotifications d @ [x]
      \<and> dedup_step (d\<lparr> duplicateIds := [] \<rparr>) x = (dedup_step d x)\<lparr> duplicateIds := [] \<rparr>)
   \<or> (uniqueNotifications (dedup_step d x) = uniqueNotifications d
      \<and> (dedup_step d x)\<lparr> duplicateIds := [] \<rparr> = d\<lparr> duplicateIds := [] \<rparr>)"
  by (auto simp: dedup_step_def split: option.splits)

text \<open>The loop, run again on the notifications it kept, rebuilds the same state but
  for \<open>duplicateIds\<close>, which stay empty.\<close>

lemma dedup_rerun:
  "foldl dedup_step dedup_init (uniqueNotifications (foldl dedup_step dedup_init xs))
     = (foldl dedup_step dedup_init xs)\<lparr> duplicateIds := [] \<rparr>"
proof (induction xs rule: rev_induct)
  case Nil
  show ?case by (simp add: dedup_init_def)
next
  case (snoc x xs)
  let ?d = "foldl dedup_step dedup_init xs"
  from dedup_step_cases[of ?d x] show ?case
  proof
    assume "uniqueNotifications (dedup_step ?d x) = uniqueNotifications ?d @ [x]
      \<and> dedup_step (?d\<lparr> duplicateIds := [] \<rparr>) x = (dedup_step ?d x)\<lparr> duplicateIds := [] \<rparr>"
    then show ?thesis using snoc.IH by simp
  next
    assume "uniqueNotifications (dedup_step ?d x) = uniqueNotifications ?d
      \<and> (dedup_step ?d x)\<lparr> duplicateIds := [] \<rparr> = ?d\<lparr> duplicateIds := [] \<rparr>"
    then show ?thesis using snoc.IH by simp
  qed
qed

text \<open>
  Claim C8. \<open>deduplicateNotifications\<close> is idempotent: applied to its own
  \<open>uniqueNotifications\<close> it returns the same list and no \<open>duplicateIds\<close>.
\<close>

theorem deduplicateNotifications_idempotent:
  "deduplicateNotifications (fst (deduplicateNotifications ns))
     = (fst (deduplicateNotifications ns), [])"
proof -
  let ?d = "foldl dedup_step dedup_init ns"
  have kept: "fst (deduplicateNotifications ns) = uniqueNotifications ?d"
    by (simp add: deduplicateNotifications_def Let_def)
  have "foldl dedup_step dedup_init (uniqueNotifications ?d) = ?d\<lparr> duplicateIds := [] \<rparr>"
    by (rule dedup_rerun)
  then have "deduplicateNotifications (uniqueNotifications ?d) = (uniqueNotifications ?d, [])"
    by (simp add: deduplicateNotifications_def Let_def)
  with kept show ?thesis by simp
qed

text \<open>On the stored notifications of the example, all of one quiz: the first is kept.\<close>

theorem deduplicateNotifications_idempotent_witness:
  "fst (deduplicateNotifications (notifications db_duplicates)) = [assigned 1 ''t1'']
   \<and> snd (deduplicateNotifications (notifications db_duplicates)) = [2, 3, 4]
   \<and> deduplicateNotifications [assigned 1 ''t1''] = ([assigned 1 ''t1''], [])"
proof -
  have u: "fst (deduplicateNotifications (notifications db_duplicates)) = [assigned 1 ''t1'']"
    by (simp add: deduplicateNotifications_def dedup_step_def dedup_init_def db_duplicates_def
          assigned_def)
  have d: "snd (deduplicateNotifications (notifications db_duplicates)) = [2, 3, 4]"
    by (simp add: deduplicateNotifications_def dedup_step_def dedup_init_def db_duplicates_def
          assigned_def)
  show ?thesis
    using u d deduplicateNotifications_idempotent[of "notifications db_duplicates"] by simp
qed

section \<open>Reading notifications with in-app notifications switched off\<close>

text \<open>
  Claim C10. If the user's \<open>inAppNotifications\<close> setting is false, \<open>getNotifications\<close>
  returns no notification and \<open>unreadCount\<close> 0, \<open>getUnreadCount\<close> returns 0, and the
  store is left as it was: no duplicate is marked read.
\<close>

theorem inApp_disabled_reads_nothing:
  assumes "findUser s uid = Some u" and "notificationSettings u = Some st"
    and "inAppNotifications st = Some False"
  shows "getNotifications s uid fltr =
           (\<lparr> respNotifications = [], respUnreadCount = 0,
              respMessage = Some ''In-app notifications are disabled'' \<rparr>, s)
       \<and> getUnreadCount s uid =
           (\<lparr> respCount = 0, respCountMessage = Some ''In-app notifications are disabled'' \<rparr>, s)"
  using assms
  by (simp add: getNotifications_def getUnreadCount_def inAppNotificationsEnabled_def)

text \<open>The teacher \<open>t1\<close> of the example has two unread copies of one assignment.\<close>

theorem inApp_disabled_reads_nothing_witness:
  "findUser db_duplicates ''t1'' = Some teacher_t1
   \<and> notificationSettings teacher_t1
       = Some \<lparr> inAppNotifications = Some False, emailNotifications = None \<rparr>
   \<and> getNotifications db_duplicates ''t1'' ''all'' =
           (\<lparr> respNotifications = [], respUnreadCount = 0,
              respMessage = Some ''In-app notifications are disabled'' \<rparr>, db_duplicates)
   \<and> getUnreadCount db_duplicates ''t1'' =
           (\<lparr> respCount = 0, respCountMessage = Some ''In-app notifications are disabled'' \<rparr>,
            db_duplicates)"
proof -
  have h1: "findUser db_duplicates ''t1'' = Some teacher_t1"
    by (simp add: findUser_def findById_def db_duplicates_def db0_def student_def teacher_t1_def)
  have h2: "notificationSettings teacher_t1
              = Some \<lparr> inAppNotifications = Some False, emailNotifications = None \<rparr>"
    by (simp add: teacher_t1_def)
  have h3: "inAppNotifications \<lparr> inAppNotifications = Some False, emailNotifications = None \<rparr>
              = Some False"
    by simp
  show ?thesis
    using h1 h2 inApp_disabled_reads_nothing[OF h1 h2 h3, of "''all''"] by simp
qed

text \<open>For the student \<open>s1\<close>, whose in-app notifications are on, reading keeps the
  first copy and marks the other read.\<close>

lemma getNotifications_marks_duplicates:
  "respNotifications (fst (getNotifications db_duplicates ''s1'' ''all'')) = [assigned 3 ''s1'']
   \<and> respUnreadCount (fst (getNotifications db_duplicates ''s1'' ''all'')) = 1
   \<and> notifications (snd (getNotifications db_duplicates ''s1'' ''all'')) =
       [assigned 1 ''t1'', assigned 2 ''t1'', assigned 3 ''s1'',
        (assigned 4 ''s1'')\<lparr> isRead := True \<rparr>]"
  by (simp add: getNotifications_def inAppNotificationsEnabled_def findUser_def findById_def
        deduplicateNotifications_def dedup_step_def dedup_init_def markRead_def
        db_duplicates_def db0_def student_def teacher_t1_def assigned_def)

section \<open>Dispatch of a quiz assignment\<close>

lemma countAssigned_createNotification:
  "countAssigned (createNotification s n) qid
     = countAssigned s qid + (if quizId n = Some qid \<and> ntype n = ''quiz_assigned'' then 1 else 0)"
  by (simp add: countAssigned_def createNotification_def)

lemma countAssigned_create_assignment:
  "countAssigned (createNotification s (assignmentNotification qid now p)) qid
     = Suc (countAssigned s qid)"
  by (simp add: countAssigned_createNotification assignmentNotification_def)

lemma countAssigned_create_all:
  "countAssigned (foldl createNotification s (map (assignmentNotification qid now) found)) qid
     = countAssigned s qid + length found"
proof (induction found arbitrary: s)
  case Nil
  show ?case by simp
next
  case (Cons p ps)
  show ?case
    by (simp add: Cons.IH countAssigned_create_assignment)
qed

lemma notifications_sendEmailNotification:
  "notifications (sendEmailNotification s uid addr subj ttl) = notifications s"
  by (simp add: sendEmailNotification_def split: option.splits)

lemma notifications_sendAssignmentEmails:
  "notifications (sendAssignmentEmails s qd found) = notifications s"
  by (induction s qd found rule: sendAssignmentEmails.induct)
     (simp_all add: Let_def notifications_sendEmailNotification)

lemma countAssigned_sendAssignmentEmails:
  "countAssigned (sendAssignmentEmails s qd found) qid = countAssigned s qid"
  by (simp add: countAssigned_def notifications_sendAssignmentEmails)

text \<open>
  Claim C6. The dispatch is idempotent. If a \<open>quiz_assigned\<close> notification of the quiz
  exists, the call changes nothing in the store (no notification, no email) and returns
  \<open>skipped\<close> with the number of those notifications. After any call, the same call
  again changes nothing; if the first call created \<open>n\<close> notifications the second
  returns \<open>skipped\<close> with the count \<open>n\<close>.
\<close>

theorem createQuizNotification_idempotent:
  assumes "createQuizNotification s qid qd now = (r1, s1)"
  shows "createQuizNotification s1 qid qd now' =
           (case r1 of Created n \<Rightarrow> Skipped n | Skipped n \<Rightarrow> Skipped n | NoStudents \<Rightarrow> NoStudents,
            s1)
       \<and> (if countAssigned s qid > 0 then r1 = Skipped (countAssigned s qid) \<and> s1 = s else True)"
proof (cases "countAssigned s qid > 0")
  case True
  then show ?thesis using assms by (auto simp: createQuizNotification_def Let_def)
next
  case False
  note zero = this
  show ?thesis
  proof (cases "filter (studentFilter qd) (students s) = []")
    case True
    then show ?thesis using assms zero by (auto simp: createQuizNotification_def Let_def)
  next
    case False
    let ?found = "filter (studentFilter qd) (students s)"
    have r1: "r1 = Created (length ?found)"
      and s1: "s1 = sendAssignmentEmails
                      (foldl createNotification s (map (assignmentNotification qid now) ?found))
                      qd ?found"
      using assms zero False by (auto simp: createQuizNotification_def Let_def)
    have "countAssigned s1 qid = length ?found"
      using zero by (simp add: s1 countAssigned_sendAssignmentEmails countAssigned_create_all)
    moreover have "length ?found > 0" using False by simp
    ultimately show ?thesis using r1 zero by (simp add: createQuizNotification_def Let_def)
  qed
qed

text \<open>The first dispatch of the example notifies the four students and sends three
  emails; the second, ten minutes later, is skipped with the count 4.\<close>

lemma createQuizNotification_first:
  "fst (createQuizNotification db0 ''q1'' qd0 1741564800000) = Created 4
   \<and> map recipientId (notifications (snd (createQuizNotification db0 ''q1'' qd0 1741564800000)))
       = [''s1'', ''s2'', ''s3'', ''s4'']
   \<and> map mailTo (outbox (snd (createQuizNotification db0 ''q1'' qd0 1741564800000)))
       = [''s1@school.org'', ''s2@school.org'', ''s3@school.org'']"
  by (simp add: createQuizNotification_def countAssigned_def studentFilter_def yearStrings_def
        assignmentNotification_def createNotification_def sendEmailNotification_def
        findUser_def findById_def freshId_def truthy_def strOf_def Let_def
        db0_def qd0_def student_def teacher_t1_def)

theorem createQuizNotification_idempotent_witness:
  "createQuizNotification db0 ''q1'' qd0 1741564800000
     = (Created 4, snd (createQuizNotification db0 ''q1'' qd0 1741564800000))
   \<and> createQuizNotification (snd (createQuizNotification db0 ''q1'' qd0 1741564800000))
        ''q1'' qd0 1741565400000
     = (Skipped 4, snd (createQuizNotification db0 ''q1'' qd0 1741564800000))
   \<and> countAssigned (snd (createQuizNotification db0 ''q1'' qd0 1741564800000)) ''q1'' = 4"
proof -
  let ?s1 = "snd (createQuizNotification db0 ''q1'' qd0 1741564800000)"
  have h: "createQuizNotification db0 ''q1'' qd0 1741564800000 = (Created 4, ?s1)"
    using createQuizNotification_first by (simp add: prod_eq_iff)
  have second: "createQuizNotification ?s1 ''q1'' qd0 1741565400000 = (Skipped 4, ?s1)"
    using createQuizNotification_idempotent[OF h, of 1741565400000] by simp
  have "countAssigned ?s1 ''q1'' = 4"
    using createQuizNotification_idempotent[OF second, of 1741565400000]
    by (simp split: if_splits add: createQuizNotification_def Let_def)
  with h second show ?thesis by simp
qed

section \<open>Submitting answers\<close>

text \<open>
  Claim C7. For a quiz with \<open>maxAttempts = 2\<close> and a user who has two results for it,
  none of them within the last five seconds, a further submission is rejected with the
  attempts-exhausted response carrying the counts (2 used of 2), and the store is left
  as it was: no result is written.
\<close>

theorem third_attempt_rejected:
  assumes "quizzes s qid = Some q" and "maxAttempts q = 2"
    and "length (filter (\<lambda>r. userId r = uid \<and> resultQuizId r = qid) (results s)) = 2"
    and "find (\<lambda>r. userId r = uid \<and> resultQuizId r = qid \<and> submittedAt r \<ge> now - 5000)
           (results s) = None"
  shows "submitQuizAnswers tz s qid uid answers abandonedQuiz now = (AttemptsExhausted 2 2, s)"
  using assms by (simp add: submitQuizAnswers_def)

text \<open>The student \<open>s1\<close>, with attempts at 10:00 and 11:00, submits again at noon.\<close>

theorem third_attempt_rejected_witness:
  "quizzes db_two_attempts ''q1'' = Some quiz_day \<and> maxAttempts quiz_day = 2
   \<and> length (filter (\<lambda>r. userId r = ''s1'' \<and> resultQuizId r = ''q1'') (results db_two_attempts)) = 2
   \<and> find (\<lambda>r. userId r = ''s1'' \<and> resultQuizId r = ''q1'' \<and> submittedAt r \<ge> 1741608000000 - 5000)
        (results db_two_attempts) = None
   \<and> submitQuizAnswers 0 db_two_attempts ''q1'' ''s1'' [Num 1] False 1741608000000
       = (AttemptsExhausted 2 2, db_two_attempts)"
proof -
  have h1: "quizzes db_two_attempts ''q1'' = Some quiz_day"
    by (simp add: db_two_attempts_def db0_def)
  have h2: "maxAttempts quiz_day = 2" by (simp add: quiz_day_def)
  have h3: "length (filter (\<lambda>r. userId r = ''s1'' \<and> resultQuizId r = ''q1'')
                      (results db_two_attempts)) = 2"
    by (simp add: db_two_attempts_def)
  have h4: "find (\<lambda>r. userId r = ''s1'' \<and> resultQuizId r = ''q1''
                      \<and> submittedAt r \<ge> 1741608000000 - 5000)
              (results db_two_attempts) = None"
    by (simp add: db_two_attempts_def)
  show ?thesis
    using h1 h2 h3 h4 third_attempt_rejected[OF h1 h2 h3 h4, of 0 "[Num 1]" False] by simp
qed

lemma findUser_student:
  assumes "findById (students s) uid = Some st"
  shows "findUser s uid \<noteq> None"
  using assms by (simp add: findUser_def split: option.splits)

lemma sendSubmissionEmail_sends:
  assumes "findById (students s) uid = Some st" and "truthy (email st)"
  shows "sendSubmissionEmail s uid q =
           s\<lparr> outbox := outbox s @ [\<lparr> mailTo = strOf (email st), mailSubject = ''Quiz Submitted'',
                                     mailTitle = title q \<rparr>] \<rparr>"
  using assms findUser_student[OF assms(1)]
  by (auto simp: sendSubmissionEmail_def sendEmailNotification_def split: option.splits)

lemma notifySubmission_frame:
  "students (notifySubmission s uid qid sc now) = students s
   \<and> users (notifySubmission s uid qid sc now) = users s
   \<and> teachers (notifySubmission s uid qid sc now) = teachers s
   \<and> outbox (notifySubmission s uid qid sc now) = outbox s"
  by (simp add: notifySubmission_def createNotification_def split: option.splits)

lemma gradedCount_notifySubmission:
  "gradedCount (notifySubmission s uid qid sc now) uid qid =
     (if find (\<lambda>n. recipientId n = uid \<and> quizId n = Some qid \<and> ntype n = ''quiz_graded''
                   \<and> createdAt n \<ge> now - 5000) (notifications s) = None
      then Suc (gradedCount s uid qid) else gradedCount s uid qid)"
  by (auto simp: notifySubmission_def createNotification_def gradedCount_def split: option.splits)

lemma checkMajority_submissionMails:
  "submissionMails (checkMajority s qid q now) = submissionMails s"
  by (simp add: checkMajority_def Let_def submissionMails_def createNotification_def
        sendEmailNotification_def split: option.splits)

lemma checkMajority_gradedCount:
  "gradedCount (checkMajority s qid q now) uid qid' = gradedCount s uid qid'"
  by (simp add: checkMajority_def Let_def gradedCount_def createNotification_def
        sendEmailNotification_def split: option.splits)

text \<open>
  Claim C9, as the code has it. For every successful submission that is not an
  abandonment, by a student whose record is found and has an email address, the
  submission email is handed to \<open>sendEmail\<close> exactly twice, the two messages being the
  same; the submission creates one \<open>quiz_graded\<close> notification, and none when one of
  the same student and quiz was created within the last five seconds.
\<close>

theorem submission_email_sent_twice:
  assumes "submitQuizAnswers tz s qid uid answers False now = (Submitted r k, s')"
    and "quizzes s qid = Some q"
    and "findById (students s) uid = Some st" and "truthy (email st)"
  shows "submissionMails s' =
           submissionMails s @ replicate 2 \<lparr> mailTo = strOf (email st),
                                            mailSubject = ''Quiz Submitted'', mailTitle = title q \<rparr>
       \<and> gradedCount s' uid qid =
           (if find (\<lambda>n. recipientId n = uid \<and> quizId n = Some qid \<and> ntype n = ''quiz_graded''
                         \<and> createdAt n \<ge> now - 5000) (notifications s) = None
            then Suc (gradedCount s uid qid) else gradedCount s uid qid)"
proof -
  define sc where
    "sc = roundPercent (countCorrect answers (questions q)) (int (length (questions q)))"
  define res where
    "res = \<lparr> userId = uid, resultQuizId = qid, resultScore = sc,
             correctAnswers = countCorrect answers (questions q),
             totalQuestions = int (length (questions q)),
             submittedAt = now, abandoned = False \<rparr>"
  define s1 where "s1 = s\<lparr> results := results s @ [res] \<rparr>"
  define s2 where "s2 = notifySubmission s1 uid qid sc now"
  define s3 where "s3 = sendSubmissionEmail s2 uid q"
  define s4 where "s4 = sendSubmissionEmail s3 uid q"
  define m where
    "m = \<lparr> mailTo = strOf (email st), mailSubject = ''Quiz Submitted'', mailTitle = title q \<rparr>"
  have s': "s' = checkMajority s4 qid q now"
    using assms(1,2) unfolding s4_def s3_def s2_def s1_def res_def sc_def
    by (auto simp: submitQuizAnswers_def Let_def split: option.splits if_splits)
  have st2: "findById (students s2) uid = Some st"
    using assms(3) by (simp add: s2_def s1_def notifySubmission_frame)
  have s3: "s3 = s2\<lparr> outbox := outbox s2 @ [m] \<rparr>"
    unfolding s3_def m_def using sendSubmissionEmail_sends[OF st2 assms(4)] .
  have st3: "findById (students s3) uid = Some st"
    using st2 by (simp add: s3)
  have s4: "s4 = s3\<lparr> outbox := outbox s3 @ [m] \<rparr>"
    unfolding s4_def m_def using sendSubmissionEmail_sends[OF st3 assms(4)] .
  have "outbox s2 = outbox s"
    by (simp add: s2_def s1_def notifySubmission_frame)
  then have out: "outbox s4 = outbox s @ [m, m]"
    by (simp add: s4 s3)
  have msub: "mailSubject m = ''Quiz Submitted''" by (simp add: m_def)
  have "submissionMails s4 = submissionMails s @ [m, m]"
    using msub by (simp add: submissionMails_def out)
  then have mails: "submissionMails s' = submissionMails s @ replicate 2 m"
    by (simp add: s' checkMajority_submissionMails numeral_2_eq_2)
  have "notifications s4 = notifications s2"
    by (simp add: s4 s3)
  then have g4: "gradedCount s4 uid qid = gradedCount s2 uid qid"
    by (simp add: gradedCount_def)
  have n1: "notifications s1 = notifications s"
    by (simp add: s1_def)
  then have g1: "gradedCount s1 uid qid = gradedCount s uid qid"
    by (simp add: gradedCount_def)
  have "gradedCount s' uid qid = gradedCount s2 uid qid"
    by (simp add: s' checkMajority_gradedCount g4)
  then have "gradedCount s' uid qid =
           (if find (\<lambda>n. recipientId n = uid \<and> quizId n = Some qid \<and> ntype n = ''quiz_graded''
                         \<and> createdAt n \<ge> now - 5000) (notifications s) = None
            then Suc (gradedCount s uid qid) else gradedCount s uid qid)"
    unfolding s2_def gradedCount_notifySubmission n1 g1 .
  with mails show ?thesis by (simp add: m_def)
qed

lemmas db_defs = db0_def student_def teacher_t1_def

text \<open>The student \<open>s1\<close> of the example submits at noon.\<close>

lemma submit_s1:
  "fst (submitQuizAnswers 0 db0 ''q1'' ''s1'' [Num 1] False 1741608000000)
     = Submitted \<lparr> userId = ''s1'', resultQuizId = ''q1'', resultScore = Some 100,
                   correctAnswers = 1, totalQuestions = 1, submittedAt = 1741608000000,
                   abandoned = False \<rparr> 1"
  by code_simp

theorem submission_email_sent_twice_witness:
  "quizzes db0 ''q1'' = Some quiz_day
   \<and> findById (students db0) ''s1'' = Some (student ''s1'' (Some ''s1@school.org''))
   \<and> truthy (email (student ''s1'' (Some ''s1@school.org'')))
   \<and> submissionMails after1 =
       [\<lparr> mailTo = ''s1@school.org'', mailSubject = ''Quiz Submitted'', mailTitle = ''Algebra'' \<rparr>,
        \<lparr> mailTo = ''s1@school.org'', mailSubject = ''Quiz Submitted'', mailTitle = ''Algebra'' \<rparr>]
   \<and> gradedCount after1 ''s1'' ''q1'' = 1"
proof -
  have h1: "submitQuizAnswers 0 db0 ''q1'' ''s1'' [Num 1] False 1741608000000
              = (Submitted \<lparr> userId = ''s1'', resultQuizId = ''q1'', resultScore = Some 100,
                   correctAnswers = 1, totalQuestions = 1, submittedAt = 1741608000000,
                   abandoned = False \<rparr> 1, after1)"
    using submit_s1 by (simp add: prod_eq_iff after1_def)
  have h2: "quizzes db0 ''q1'' = Some quiz_day" by (simp add: db0_def)
  have h3: "findById (students db0) ''s1'' = Some (student ''s1'' (Some ''s1@school.org''))"
    by (simp add: findById_def db_defs)
  have h4: "truthy (email (student ''s1'' (Some ''s1@school.org'')))"
    by (simp add: truthy_def student_def)
  have e: "submissionMails db0 = [] \<and> gradedCount db0 ''s1'' ''q1'' = 0
           \<and> notifications db0 = []"
    by (simp add: submissionMails_def gradedCount_def db0_def)
  show ?thesis
    using h2 h3 h4 e submission_email_sent_twice[OF h1 h2 h3 h4]
    by (simp add: strOf_def student_def quiz_day_def numeral_2_eq_2)
qed

text \<open>
  The claim fails as stated: the student \<open>s4\<close> has no email address; the submission
  succeeds and no email is sent.
\<close>

theorem submission_email_not_sent_without_address:
  "fst (submitQuizAnswers 0 db0 ''q1'' ''s4'' [Num 1] False 1741608000000)
     = Submitted \<lparr> userId = ''s4'', resultQuizId = ''q1'', resultScore = Some 100,
                   correctAnswers = 1, totalQuestions = 1, submittedAt = 1741608000000,
                   abandoned = False \<rparr> 1
   \<and> outbox (snd (submitQuizAnswers 0 db0 ''q1'' ''s4'' [Num 1] False 1741608000000)) = []"
  by code_simp

section \<open>The majority notification\<close>

text \<open>Below the threshold the test is false; on the submission that reaches it the
  test is true.\<close>

lemma majorityTest_below:
  assumes "roundPercent c t = Some p" and "p < 50"
  shows "\<not> majorityTest c t"
  using assms by (simp add: majorityTest_def majorityThreshold_def split: option.splits)

lemma majorityTest_crossing:
  assumes "roundPercent c t = Some p" and "50 \<le> p"
    and "roundPercent (c - 1) t = Some p'" and "p' < 50"
  shows "majorityTest c t"
  using assms by (simp add: majorityTest_def majorityThreshold_def)

text \<open>With four students the test is true at two, three and four results.\<close>

lemma majorityTest_four_students:
  "\<not> majorityTest 1 4 \<and> majorityTest 2 4 \<and> majorityTest 3 4 \<and> majorityTest 4 4"
  by (simp add: majorityTest_def roundPercent_def majorityThreshold_def)

text \<open>
  Claim C1. The majority notification and email fire once per quiz, on the submission
  whose percentage first reaches 50, and on no submission before or after. In the
  example of four students, the first submission (25 percent) does not notify the
  teacher, the second (50 percent) does, and the third (75 percent) does again: the
  store then holds two majority notifications and two status emails were sent.
\<close>

theorem majority_notification_fires_again:
  "majorityCount after1 = 0 \<and> majorityCount after2 = 1 \<and> majorityCount after3 = 2
   \<and> map mailTo (filter (\<lambda>m. mailSubject m = ''Quiz Status'') (outbox after3))
       = [''t1@school.org'', ''t1@school.org'']"
proof -
  have first: "majorityCount after1 = 0" by code_simp
  have second: "majorityCount after2 = 1" by code_simp
  have third: "majorityCount after3 = 2" by code_simp
  have mails: "map mailTo (filter (\<lambda>m. mailSubject m = ''Quiz Status'') (outbox after3))
                 = [''t1@school.org'', ''t1@school.org'']"
    by code_simp
  from first second third mails show ?thesis by simp
qed

end
